theory Spec2Isabelle
  imports Complex_Main
begin

section \<open>Alert watcher for a blue-green deployment (watcher.py)\<close>

text \<open>
  The watcher tails an access log, keeps a bounded window of recent requests and raises
  rate-limited alerts. Python \<open>float\<close> values (clock readings, error rates, thresholds) are
  modelled as rationals with exact arithmetic: rounding to binary64 is not modelled.
  Python \<open>str\<close> is \<open>string\<close>, each \<open>char\<close> read as a code point below 256.
\<close>

subsection \<open>Configuration (module constants read from the environment)\<close>

record config =
  ERROR_RATE_THRESHOLD :: rat
  WINDOW_SIZE :: nat
  ALERT_COOLDOWN_SEC :: int
  MAINTENANCE_MODE :: bool

text \<open>
  \<open>WINDOW_SIZE\<close> is a \<open>nat\<close>: \<open>deque(maxlen=WINDOW_SIZE)\<close> raises at start-up for a
  negative value, so no watcher state exists with one.
\<close>

definition default_config :: config where
  "default_config =
     \<lparr>ERROR_RATE_THRESHOLD = 2, WINDOW_SIZE = 200, ALERT_COOLDOWN_SEC = 300,
      MAINTENANCE_MODE = False\<rparr>"

subsection \<open>Exceptions\<close>

datatype py_exception = ValueError | IndexError | ZeroDivisionError

subsection \<open>State: class WatcherState, the clock and the calls made\<close>

record request =
  status :: int
  req_pool :: string
  timestamp :: rat

record WatcherState =
  request_window :: "request list"
  current_pool :: "string option"
  last_alert_times :: "string \<rightharpoonup> rat"
  failover_start_time :: "rat option"
  total_requests :: nat

text \<open>
  The payload dictionaries handed to \<open>send_slack_alert\<close>, one shape per alert type:
  \<open>{from_pool, to_pool}\<close>, \<open>{error_rate, active_pool}\<close>, \<open>{pool, duration}\<close>.
\<close>

datatype payload =
  FailoverData string string
| ErrorRateData rat string
| RecoveryData string rat

text \<open>
  The observable calls, in order: every call of \<open>can_send_alert\<close> with its result (an alert
  attempt) and every call of \<open>send_slack_alert\<close> (a notification).
\<close>

datatype call =
  CanSendAlert string bool
| SendSlackAlert string payload

text \<open>
  The world is the global \<open>state\<close> object together with the environment: \<open>clock k\<close> is
  the value of the \<open>k\<close>-th call of \<open>time.time()\<close>, \<open>clock_reads\<close> counts the calls made so
  far, and \<open>calls\<close> is the trace above.
\<close>

record world = WatcherState +
  clock :: "nat \<Rightarrow> rat"
  clock_reads :: nat
  calls :: "call list"

definition init_world :: "(nat \<Rightarrow> rat) \<Rightarrow> world" where
  "init_world clk =
     \<lparr>request_window = [], current_pool = None, last_alert_times = Map.empty,
      failover_start_time = None, total_requests = 0,
      clock = clk, clock_reads = 0, calls = []\<rparr>"

definition time_time :: "world \<Rightarrow> rat \<times> world" where
  "time_time w = (clock w (clock_reads w), w\<lparr>clock_reads := Suc (clock_reads w)\<rparr>)"

text \<open>A clock that starts at \<open>t0\<close> and advances by \<open>step\<close> between two readings.\<close>

definition steady_clock :: "rat \<Rightarrow> rat \<Rightarrow> nat \<Rightarrow> rat" where
  "steady_clock t0 step k = t0 + step * of_nat k"

definition record_call :: "call \<Rightarrow> world \<Rightarrow> world" where
  "record_call c w = w\<lparr>calls := calls w @ [c]\<rparr>"

definition new_calls :: "world \<Rightarrow> world \<Rightarrow> call list" where
  "new_calls w w' = drop (length (calls w)) (calls w')"

definition attempted :: "string \<Rightarrow> call list \<Rightarrow> bool" where
  "attempted alert_type cs =
     list_ex (\<lambda>c. case c of CanSendAlert a _ \<Rightarrow> a = alert_type | SendSlackAlert _ _ \<Rightarrow> False) cs"

subsection \<open>WatcherState.can_send_alert\<close>

definition can_send_alert :: "config \<Rightarrow> string \<Rightarrow> world \<Rightarrow> bool \<times> world" where
  "can_send_alert cfg alert_type w =
     (if MAINTENANCE_MODE cfg then (False, record_call (CanSendAlert alert_type False) w)
      else
        let last_time = (case last_alert_times w alert_type of None \<Rightarrow> 0 | Some t \<Rightarrow> t);
            (current_time, w1) = time_time w
        in if current_time - last_time \<ge> of_int (ALERT_COOLDOWN_SEC cfg)
           then (True, record_call (CanSendAlert alert_type True)
                         (w1\<lparr>last_alert_times := (last_alert_times w1)(alert_type \<mapsto> current_time)\<rparr>))
           else (False, record_call (CanSendAlert alert_type False) w1))"

subsection \<open>WatcherState.add_request and the bounded deque\<close>

text \<open>
  \<open>collections.deque(maxlen=n).append(x)\<close>: the item is appended on the right and, if the
  deque is then longer than \<open>maxlen\<close>, one item is removed from the left.
\<close>

definition deque_append :: "nat \<Rightarrow> 'a list \<Rightarrow> 'a \<Rightarrow> 'a list" where
  "deque_append maxlen d x = (let d' = d @ [x] in if maxlen < length d' then tl d' else d')"

definition add_request :: "config \<Rightarrow> int \<Rightarrow> string \<Rightarrow> world \<Rightarrow> world" where
  "add_request cfg st pl w =
     (let (now, w1) = time_time w
      in w1\<lparr>request_window :=
               deque_append (WINDOW_SIZE cfg) (request_window w1)
                 \<lparr>status = st, req_pool = pl, timestamp = now\<rparr>,
            total_requests := total_requests w1 + 1\<rparr>)"

subsection \<open>WatcherState.get_error_rate\<close>

definition py_truediv :: "rat \<Rightarrow> rat \<Rightarrow> py_exception + rat" where
  "py_truediv a b = (if b = 0 then Inl ZeroDivisionError else Inr (a / b))"

definition get_error_rate :: "world \<Rightarrow> py_exception + rat" where
  "get_error_rate w =
     (if length (request_window w) = 0 then Inr 0
      else
        let error_count =
              sum_list (map (\<lambda>req. 1 :: nat)
                (filter (\<lambda>req. 500 \<le> status req \<and> status req < 600) (request_window w)))
        in case py_truediv (of_nat error_count) (of_nat (length (request_window w))) of
             Inl e \<Rightarrow> Inl e
           | Inr q \<Rightarrow> Inr (q * 100))"

subsection \<open>send_slack_alert\<close>

text \<open>
  The body renders a message and posts it to the webhook; it neither reads nor writes the
  watcher state, and every caller discards its result. The model records the call.
\<close>

definition send_slack_alert :: "string \<Rightarrow> payload \<Rightarrow> world \<Rightarrow> world" where
  "send_slack_alert alert_type data w = record_call (SendSlackAlert alert_type data) w"

subsection \<open>detect_failover\<close>

text \<open>\<open>str.lower()\<close> on code points below 256: A-Z and the Latin-1 capitals.\<close>

definition py_lower_char :: "char \<Rightarrow> char" where
  "py_lower_char c =
     (let n = (of_char c :: nat)
      in if (65 \<le> n \<and> n \<le> 90) \<or> (192 \<le> n \<and> n \<le> 222 \<and> n \<noteq> 215)
         then char_of (n + 32) else c)"

definition py_lower :: "string \<Rightarrow> string" where
  "py_lower s = map py_lower_char s"

definition startswith :: "string \<Rightarrow> string \<Rightarrow> bool" where
  "startswith s p = (take (length p) s = p)"

text \<open>
  The truth value of \<open>state.failover_start_time\<close> as Python tests it: \<open>None\<close> is false, and
  so is the float \<open>0.0\<close>.
\<close>

definition truthy :: "rat option \<Rightarrow> bool" where
  "truthy v = (case v of None \<Rightarrow> False | Some t \<Rightarrow> t \<noteq> 0)"

text \<open>The block under \<open># Send failover alert\<close>.\<close>

definition failover_alert :: "config \<Rightarrow> string \<Rightarrow> string \<Rightarrow> world \<Rightarrow> world" where
  "failover_alert cfg cur new_pool w =
     (let (ok, w1) = can_send_alert cfg ''failover'' w
      in if ok then
           let w2 = send_slack_alert ''failover'' (FailoverData cur new_pool) w1;
               (t, w3) = time_time w2
           in w3\<lparr>failover_start_time := Some t\<rparr>
         else w1)"

text \<open>The block under \<open># Check for recovery (back to primary)\<close>.\<close>

definition recovery_check :: "config \<Rightarrow> string \<Rightarrow> world \<Rightarrow> world" where
  "recovery_check cfg new_pool w =
     (if startswith (py_lower new_pool) ''blue'' \<and> truthy (failover_start_time w) then
        case failover_start_time w of
          None \<Rightarrow> w
        | Some start \<Rightarrow>
            let (t, w1) = time_time w;
                duration = t - start;
                (ok, w2) = can_send_alert cfg ''recovery'' w1;
                w3 = (if ok then
                        send_slack_alert ''recovery'' (RecoveryData new_pool duration) w2
                      else w2)
            in w3\<lparr>failover_start_time := None\<rparr>
      else w)"

definition detect_failover :: "config \<Rightarrow> string \<Rightarrow> world \<Rightarrow> bool \<times> world" where
  "detect_failover cfg new_pool w =
     (case current_pool w of
        None \<Rightarrow> (False, w\<lparr>current_pool := Some new_pool\<rparr>)
      | Some cur \<Rightarrow>
          if cur \<noteq> new_pool then
            let w1 = failover_alert cfg cur new_pool w;
                w2 = w1\<lparr>current_pool := Some new_pool\<rparr>;
                w3 = recovery_check cfg new_pool w2
            in (True, w3)
          else (False, w))"

subsection \<open>check_error_rate\<close>

text \<open>
  The float constant \<open>0.1\<close> is read as one tenth, and the comparison of the window length
  with \<open>WINDOW_SIZE * 0.1\<close> is made in exact arithmetic. \<open>state.current_pool or 'Unknown'\<close>
  is \<open>Unknown\<close> for \<open>None\<close> and for the empty string.
\<close>

definition check_error_rate :: "config \<Rightarrow> world \<Rightarrow> py_exception + world" where
  "check_error_rate cfg w =
     (if of_nat (length (request_window w)) < of_nat (WINDOW_SIZE cfg) * (1 / 10 :: rat)
      then Inr w
      else
        case get_error_rate w of
          Inl e \<Rightarrow> Inl e
        | Inr error_rate \<Rightarrow>
            if error_rate > ERROR_RATE_THRESHOLD cfg then
              let (ok, w1) = can_send_alert cfg ''error_rate'' w
              in if ok then
                   Inr (send_slack_alert ''error_rate''
                          (ErrorRateData error_rate
                             (case current_pool w1 of
                                None \<Rightarrow> ''Unknown''
                              | Some p \<Rightarrow> if p = [] then ''Unknown'' else p)) w1)
                 else Inr w1
            else Inr w)"

subsection \<open>Built-ins used by parse_log_line\<close>

text \<open>
  \<open>str.strip()\<close> removes the characters for which \<open>str.isspace()\<close> holds; below 256 these
  are the code points 9-13, 28-32, 133 and 160.
\<close>

definition py_isspace :: "char \<Rightarrow> bool" where
  "py_isspace c =
     (let n = (of_char c :: nat)
      in (9 \<le> n \<and> n \<le> 13) \<or> (28 \<le> n \<and> n \<le> 32) \<or> n = 133 \<or> n = 160)"

definition py_strip :: "string \<Rightarrow> string" where
  "py_strip s = rev (dropWhile py_isspace (rev (dropWhile py_isspace s)))"

text \<open>\<open>str.split(sep)\<close> for a one-character separator: one field more than separators.\<close>

fun py_split :: "char \<Rightarrow> string \<Rightarrow> string list" where
  "py_split sep [] = [[]]"
| "py_split sep (c # cs) =
     (if c = sep then [] # py_split sep cs
      else case py_split sep cs of
             [] \<Rightarrow> [[c]]
           | p # ps \<Rightarrow> (c # p) # ps)"

definition py_index :: "'a list \<Rightarrow> nat \<Rightarrow> py_exception + 'a" where
  "py_index xs i = (if i < length xs then Inr (xs ! i) else Inl IndexError)"

definition py_isdigit :: "char \<Rightarrow> bool" where
  "py_isdigit c = (let n = (of_char c :: nat) in 48 \<le> n \<and> n \<le> 57)"

fun digits_val :: "nat \<Rightarrow> string \<Rightarrow> nat" where
  "digits_val acc [] = acc"
| "digits_val acc (c # cs) = digits_val (10 * acc + (of_char c - 48)) cs"

text \<open>
  Underscores in numeric strings: each must stand between two digits. The first argument
  is the previous character.
\<close>

fun underscores_ok :: "char option \<Rightarrow> string \<Rightarrow> bool" where
  "underscores_ok prev [] = (prev \<noteq> Some CHR ''_'')"
| "underscores_ok prev (c # cs) =
     (if c = CHR ''_''
      then (case prev of None \<Rightarrow> False | Some p \<Rightarrow> py_isdigit p) \<and> underscores_ok (Some c) cs
      else (prev = Some CHR ''_'' \<longrightarrow> py_isdigit c) \<and> underscores_ok (Some c) cs)"

definition remove_underscores :: "string \<Rightarrow> string" where
  "remove_underscores s = filter (\<lambda>c. c \<noteq> CHR ''_'') s"

fun split_sign :: "string \<Rightarrow> bool \<times> string" where
  "split_sign [] = (False, [])"
| "split_sign (c # cs) =
     (if c = CHR ''-'' then (True, cs)
      else if c = CHR ''+'' then (False, cs)
      else (False, c # cs))"

text \<open>
  \<open>int(s)\<close> on a string, base 10: surrounding whitespace, an optional sign, then decimal
  digits with single underscores between them; anything else raises \<open>ValueError\<close>. The
  interpreter's limit on the number of digits is not modelled.
\<close>

definition py_int :: "string \<Rightarrow> py_exception + int" where
  "py_int s =
     (let (neg, body) = split_sign (py_strip s);
          ds = remove_underscores body
      in if ds \<noteq> [] \<and> list_all py_isdigit ds \<and> underscores_ok None body
         then Inr (if neg then - int (digits_val 0 ds) else int (digits_val 0 ds))
         else Inl ValueError)"

text \<open>
  The values of \<open>float(s)\<close>. A decimal string denotes its exact value (rounding and overflow
  to binary64 are not modelled).
\<close>

datatype py_float = Finite rat | PosInf | NegInf | NaN

text \<open>An unsigned decimal: digits, an optional fraction, an optional exponent.\<close>

definition parse_decimal :: "string \<Rightarrow> rat option" where
  "parse_decimal s =
     (let ip = takeWhile py_isdigit s;
          r1 = dropWhile py_isdigit s;
          (fp, r2) = (case r1 of
                        [] \<Rightarrow> ([], [])
                      | c # cs \<Rightarrow>
                          if c = CHR ''.'' then (takeWhile py_isdigit cs, dropWhile py_isdigit cs)
                          else ([], r1))
      in if ip = [] \<and> fp = [] then None
         else
           let m = (of_nat (digits_val 0 (ip @ fp)) / 10 ^ length fp :: rat)
           in case r2 of
                [] \<Rightarrow> Some m
              | c # cs \<Rightarrow>
                  if c = CHR ''e'' \<or> c = CHR ''E'' then
                    let (neg, ds) = split_sign cs
                    in if ds \<noteq> [] \<and> list_all py_isdigit ds
                       then Some (if neg then m / 10 ^ digits_val 0 ds
                                  else m * 10 ^ digits_val 0 ds)
                       else None
                  else None)"

definition py_float :: "string \<Rightarrow> py_exception + py_float" where
  "py_float s =
     (let t = py_strip s
      in if \<not> underscores_ok None t then Inl ValueError
         else
           let (neg, body) = split_sign (remove_underscores t);
               word = py_lower body
           in if word = ''inf'' \<or> word = ''infinity'' then Inr (if neg then NegInf else PosInf)
              else if word = ''nan'' then Inr NaN
              else case parse_decimal body of
                     None \<Rightarrow> Inl ValueError
                   | Some v \<Rightarrow> Inr (Finite (if neg then - v else v)))"

subsection \<open>parse_log_line\<close>

record log_entry =
  pool :: string
  release :: string
  upstream_status :: int
  upstream_addr :: string
  request_time :: py_float
  upstream_response_time :: py_float

definition bind_exc :: "py_exception + 'a \<Rightarrow> ('a \<Rightarrow> py_exception + 'b) \<Rightarrow> py_exception + 'b" where
  "bind_exc m f = (case m of Inl e \<Rightarrow> Inl e | Inr x \<Rightarrow> f x)"

text \<open>The dictionary display inside \<open>try\<close>, its values computed in order.\<close>

definition build_entry :: "string list \<Rightarrow> py_exception + log_entry" where
  "build_entry parts =
     bind_exc (py_index parts 0) (\<lambda>p0.
     bind_exc (py_index parts 1) (\<lambda>p1.
     bind_exc (py_index parts 2) (\<lambda>p2.
     bind_exc (if py_strip p2 \<noteq> [] then py_int (py_strip p2) else Inr 0) (\<lambda>st.
     bind_exc (py_index parts 3) (\<lambda>p3.
     bind_exc (py_index parts 4) (\<lambda>p4.
     bind_exc (if py_strip p4 \<noteq> [] then py_float (py_strip p4) else Inr (Finite 0)) (\<lambda>rt.
     bind_exc (py_index parts 5) (\<lambda>p5.
     bind_exc (if py_strip p5 \<noteq> [] then py_float (py_strip p5) else Inr (Finite 0)) (\<lambda>urt.
       Inr \<lparr>pool = py_strip p0, release = py_strip p1, upstream_status = st,
            upstream_addr = py_strip p3, request_time = rt,
            upstream_response_time = urt\<rparr>)))))))))"

text \<open>
  \<open>Inr None\<close> is the return value \<open>None\<close>; \<open>Inl e\<close> is an exception leaving the function.
  The \<open>except\<close> clause catches \<open>ValueError\<close> and \<open>IndexError\<close> only.
\<close>

definition parse_log_line :: "string \<Rightarrow> py_exception + log_entry option" where
  "parse_log_line line =
     (let parts = py_split CHR ''|'' (py_strip line)
      in if length parts < 6 then Inr None
         else case build_entry parts of
                Inr entry \<Rightarrow> Inr (Some entry)
              | Inl ValueError \<Rightarrow> Inr None
              | Inl IndexError \<Rightarrow> Inr None
              | Inl e \<Rightarrow> Inl e)"

subsection \<open>The body of the loop in main\<close>

text \<open>
  One iteration of \<open>for line in tail_log_file(...)\<close>. A parsed entry is a dictionary of six
  keys, hence true in \<open>if parsed\<close>. The progress log every 50 requests only computes the
  error rate.
\<close>

definition main_loop_body :: "config \<Rightarrow> string \<Rightarrow> world \<Rightarrow> py_exception + world" where
  "main_loop_body cfg line w =
     (case parse_log_line line of
        Inl e \<Rightarrow> Inl e
      | Inr None \<Rightarrow> Inr w
      | Inr (Some parsed) \<Rightarrow>
          let pl = pool parsed;
              st = upstream_status parsed;
              w1 = add_request cfg st pl w;
              (_, w2) = detect_failover cfg pl w1
          in case (if total_requests w2 mod 10 = 0 then check_error_rate cfg w2 else Inr w2) of
               Inl e \<Rightarrow> Inl e
             | Inr w3 \<Rightarrow>
                 if total_requests w3 mod 50 = 0 then
                   (case get_error_rate w3 of Inl e \<Rightarrow> Inl e | Inr _ \<Rightarrow> Inr w3)
                 else Inr w3)"

subsection \<open>Sequences of calls and concrete environments\<close>

text \<open>A sequence of \<open>add_request(status, pool)\<close> calls, in order.\<close>

fun add_requests :: "config \<Rightarrow> (int \<times> string) list \<Rightarrow> world \<Rightarrow> world" where
  "add_requests cfg [] w = w"
| "add_requests cfg ((st, pl) # rs) w = add_requests cfg rs (add_request cfg st pl w)"

text \<open>
  The observations that such a sequence inserts, in arrival order, when the \<open>k\<close>-th clock
  reading is the first one it takes.
\<close>

fun stamped :: "(nat \<Rightarrow> rat) \<Rightarrow> nat \<Rightarrow> (int \<times> string) list \<Rightarrow> request list" where
  "stamped clk k [] = []"
| "stamped clk k ((st, pl) # rs) =
     \<lparr>status = st, req_pool = pl, timestamp = clk k\<rparr> # stamped clk (Suc k) rs"

text \<open>A sequence of \<open>detect_failover(pool)\<close> calls, in order.\<close>

fun observe_all :: "config \<Rightarrow> string list \<Rightarrow> world \<Rightarrow> world" where
  "observe_all cfg [] w = w"
| "observe_all cfg (p # ps) w = observe_all cfg ps (snd (detect_failover cfg p w))"


text \<open>A window of ten requests: one request is 10 percent of it.\<close>

definition tiny_config :: config where
  "tiny_config = default_config\<lparr>WINDOW_SIZE := 10\<rparr>"

definition all_errors_world :: world where
  "all_errors_world =
     add_requests tiny_config [(500, ''blue''), (503, ''blue''), (599, ''green'')]
       (init_world (steady_clock 1762250000 1))"

definition no_errors_world :: world where
  "no_errors_world =
     add_requests tiny_config [(200, ''blue''), (499, ''blue''), (600, ''green''), (0, '''')]
       (init_world (steady_clock 1762250000 1))"




text \<open>
  Five pool observations blue, green, blue, green, blue under the default configuration,
  with 50 seconds between two clock readings.
\<close>

definition flap1 :: world where
  "flap1 = snd (detect_failover default_config ''blue'' (init_world (steady_clock 1762250000 50)))"

definition flap2 :: world where
  "flap2 = snd (detect_failover default_config ''green'' flap1)"

definition flap3 :: world where
  "flap3 = snd (detect_failover default_config ''blue'' flap2)"

definition flap4 :: world where
  "flap4 = snd (detect_failover default_config ''green'' flap3)"

definition flap5 :: world where
  "flap5 = snd (detect_failover default_config ''blue'' flap4)"

text \<open>The same observations with 10 seconds between two clock readings.\<close>

definition calm3 :: world where
  "calm3 = observe_all default_config [''blue'', ''green'', ''blue'']
             (init_world (steady_clock 1762250000 10))"

definition calm4 :: world where
  "calm4 = snd (detect_failover default_config ''green'' calm3)"

definition calm5 :: world where
  "calm5 = snd (detect_failover default_config ''blue'' calm4)"

subsection \<open>Fields of a line\<close>

text \<open>The fields a line splits into, and the \<open>i\<close>-th field after trimming.\<close>

definition line_fields :: "string \<Rightarrow> string list" where
  "line_fields line = py_split CHR ''|'' (py_strip line)"


text \<open>The entry parsed from a line of six empty fields.\<close>

definition blank_entry :: log_entry where
  "blank_entry =
     \<lparr>pool = '''', release = '''', upstream_status = 0, upstream_addr = '''',
      request_time = Finite 0, upstream_response_time = Finite 0\<rparr>"

text \<open>The state after the loop body has read a line of six blank fields.\<close>

definition padded_blank_world :: world where
  "padded_blank_world =
     (case main_loop_body default_config ''  |  | | |  |  '' (init_world (steady_clock 1762250000 1)) of
        Inl e \<Rightarrow> init_world (steady_clock 1762250000 1)
      | Inr w' \<Rightarrow> w')"

section \<open>Properties\<close>

subsection \<open>Maintenance mode\<close>

text \<open>
  C8. With maintenance mode enabled, \<open>can_send_alert\<close> returns false for every alert type,
  whatever the last-sent times and the clock are (also when the type was never sent), and
  the call changes nothing of the watcher state: the last-sent mapping is the same for
  every type and the clock is not even read.
\<close>

theorem can_send_alert_maintenance:
  assumes "MAINTENANCE_MODE cfg"
  shows "fst (can_send_alert cfg alert_type w) = False
       \<and> last_alert_times (snd (can_send_alert cfg alert_type w)) = last_alert_times w
       \<and> WatcherState.truncate (snd (can_send_alert cfg alert_type w)) = WatcherState.truncate w
       \<and> clock_reads (snd (can_send_alert cfg alert_type w)) = clock_reads w"
  using assms by (simp add: can_send_alert_def record_call_def WatcherState.truncate_def)

text \<open>
  A witness for C8: the default configuration with maintenance mode switched on, asked for a
  recovery alert in the initial state, where no alert was ever sent.
\<close>

theorem can_send_alert_maintenance_witness:
  "MAINTENANCE_MODE (default_config\<lparr>MAINTENANCE_MODE := True\<rparr>)
   \<and> last_alert_times (init_world (steady_clock 1762250000 1)) ''recovery'' = None
   \<and> fst (can_send_alert (default_config\<lparr>MAINTENANCE_MODE := True\<rparr>) ''recovery''
            (init_world (steady_clock 1762250000 1))) = False
   \<and> last_alert_times (snd (can_send_alert (default_config\<lparr>MAINTENANCE_MODE := True\<rparr>)
            ''recovery'' (init_world (steady_clock 1762250000 1)))) ''recovery'' = None"
  using can_send_alert_maintenance
          [of "default_config\<lparr>MAINTENANCE_MODE := True\<rparr>" "''recovery''"
              "init_world (steady_clock 1762250000 1)"]
  by (simp add: default_config_def init_world_def)

subsection \<open>The cooldown gate\<close>




subsection \<open>The sliding window\<close>

lemma deque_append_drop:
  "length d \<le> m \<Longrightarrow> deque_append m d x = drop (Suc (length d) - m) (d @ [x])"
proof (cases "length d < m")
  case True
  then show ?thesis by (simp add: deque_append_def)
next
  case False
  assume "length d \<le> m"
  with False have "length d = m" by simp
  then show ?thesis by (cases d) (simp_all add: deque_append_def)
qed

lemma deque_append_length:
  "length d \<le> m \<Longrightarrow> length (deque_append m d x) \<le> m"
  by (simp add: deque_append_drop)

lemma window_slide:
  assumes "length d \<le> m"
  shows "drop (length (drop (Suc (length d) - m) (d @ [x])) + length ys - m)
           (drop (Suc (length d) - m) (d @ [x]) @ ys)
         = drop (length d + Suc (length ys) - m) (d @ x # ys)"
proof (cases "length d < m")
  case True
  then show ?thesis by simp
next
  case False
  with assms have eq: "length d = m" by simp
  have "drop (Suc 0) (d @ [x]) @ ys = drop (Suc 0) (d @ x # ys)"
    by (cases d) simp_all
  then show ?thesis using eq by (simp del: drop_append)
qed

lemma add_request_fields:
  "request_window (add_request cfg st pl w) =
     deque_append (WINDOW_SIZE cfg) (request_window w)
       \<lparr>status = st, req_pool = pl, timestamp = clock w (clock_reads w)\<rparr>"
  "clock (add_request cfg st pl w) = clock w"
  "clock_reads (add_request cfg st pl w) = Suc (clock_reads w)"
  "total_requests (add_request cfg st pl w) = Suc (total_requests w)"
  "current_pool (add_request cfg st pl w) = current_pool w"
  "last_alert_times (add_request cfg st pl w) = last_alert_times w"
  "failover_start_time (add_request cfg st pl w) = failover_start_time w"
  "calls (add_request cfg st pl w) = calls w"
  by (simp_all add: add_request_def time_time_def)

lemma stamped_length: "length (stamped clk k rs) = length rs"
  by (induction rs arbitrary: k) auto

lemma add_requests_window:
  "length (request_window w) \<le> WINDOW_SIZE cfg \<Longrightarrow>
   request_window (add_requests cfg rs w) =
     drop (length (request_window w) + length rs - WINDOW_SIZE cfg)
       (request_window w @ stamped (clock w) (clock_reads w) rs)"
proof (induction rs arbitrary: w)
  case Nil
  then show ?case by simp
next
  case (Cons r rs)
  obtain st pl where r: "r = (st, pl)" by (cases r)
  let ?x = "\<lparr>status = st, req_pool = pl, timestamp = clock w (clock_reads w)\<rparr>"
  let ?w = "add_request cfg st pl w"
  have win: "request_window ?w =
      drop (Suc (length (request_window w)) - WINDOW_SIZE cfg) (request_window w @ [?x])"
    using Cons.prems by (simp add: add_request_fields deque_append_drop)
  have len: "length (request_window ?w) \<le> WINDOW_SIZE cfg"
    using Cons.prems by (simp add: add_request_fields deque_append_length)
  have "request_window (add_requests cfg (r # rs) w) = request_window (add_requests cfg rs ?w)"
    by (simp add: r)
  also have "\<dots> = drop (length (request_window ?w) + length rs - WINDOW_SIZE cfg)
       (request_window ?w @ stamped (clock w) (Suc (clock_reads w)) rs)"
    using Cons.IH [OF len] by (simp add: add_request_fields)
  also have "\<dots> = drop (length (request_window w) + length (r # rs) - WINDOW_SIZE cfg)
       (request_window w @ stamped (clock w) (clock_reads w) (r # rs))"
    using window_slide [OF Cons.prems, of ?x "stamped (clock w) (Suc (clock_reads w)) rs"]
    by (simp add: win r stamped_length del: drop_append)
  finally show ?case .
qed

lemma add_requests_total:
  "total_requests (add_requests cfg rs w) = total_requests w + length rs"
  by (induction rs arbitrary: w) (auto simp: add_request_fields)

lemma add_requests_fresh:
  "request_window (add_requests cfg rs (init_world clk)) =
     drop (length rs - WINDOW_SIZE cfg) (stamped clk 0 rs)"
  using add_requests_window [of "init_world clk" cfg rs]
  by (simp add: init_world_def)

text \<open>
  C2. For every sequence of \<open>add_request\<close> calls on a fresh state, the window holds exactly
  the last \<open>min (calls made) WINDOW_SIZE\<close> observations inserted, in arrival order (each
  with the clock reading of its call); its length is that minimum, and after every prefix
  of the sequence the length is at most \<open>WINDOW_SIZE\<close>: the append and the eviction are one
  step of \<open>add_request\<close>, no state in between exists. The request counter equals the number
  of calls.
\<close>

theorem sliding_window_fifo:
  "request_window (add_requests cfg rs (init_world clk)) =
     drop (length rs - min (length rs) (WINDOW_SIZE cfg)) (stamped clk 0 rs)
   \<and> length (request_window (add_requests cfg rs (init_world clk))) =
       min (length rs) (WINDOW_SIZE cfg)
   \<and> (\<forall>n. length (request_window (add_requests cfg (take n rs) (init_world clk)))
            \<le> WINDOW_SIZE cfg)
   \<and> total_requests (add_requests cfg rs (init_world clk)) = length rs"
proof -
  have a: "length rs - min (length rs) (WINDOW_SIZE cfg) = length rs - WINDOW_SIZE cfg"
    by simp
  have win: "request_window (add_requests cfg rs (init_world clk)) =
       drop (length rs - min (length rs) (WINDOW_SIZE cfg)) (stamped clk 0 rs)"
    unfolding a by (rule add_requests_fresh)
  have len: "length (request_window (add_requests cfg rs' (init_world clk))) =
       min (length rs') (WINDOW_SIZE cfg)" for rs'
    by (simp add: add_requests_fresh stamped_length)
  have pre: "length (request_window (add_requests cfg (take n rs) (init_world clk)))
       \<le> WINDOW_SIZE cfg" for n
    by (simp only: len min.cobounded2)
  have tot: "total_requests (add_requests cfg rs (init_world clk)) = length rs"
    by (simp add: add_requests_total init_world_def)
  from win len [of rs] pre tot show ?thesis by blast
qed

subsection \<open>The error rate\<close>

lemma sum_list_ones: "sum_list (map (\<lambda>x. Suc 0) xs) = length xs"
  by (induction xs) auto

lemma get_error_rate_eq:
  "get_error_rate w =
     Inr (if request_window w = [] then 0
          else of_nat (length (filter (\<lambda>req. 500 \<le> status req \<and> status req < 600)
                                 (request_window w)))
               / of_nat (length (request_window w)) * 100)"
  by (simp add: get_error_rate_def py_truediv_def sum_list_ones)

lemma filter_all: "(\<forall>x\<in>set xs. P x) \<Longrightarrow> filter P xs = xs"
  by (induction xs) auto

lemma filter_none: "(\<forall>x\<in>set xs. \<not> P x) \<Longrightarrow> filter P xs = []"
  by (induction xs) auto

text \<open>
  C3. For every window, \<open>get_error_rate\<close> returns (number of requests with
  \<open>500 \<le> status < 600\<close>) / (window length) * 100, and 0 on the empty window; it always
  returns a value, so the division never raises \<open>ZeroDivisionError\<close>. A non-empty window
  whose statuses all lie in [500, 600) gives 100, a window with no status in that range
  gives 0.
\<close>

theorem get_error_rate_formula:
  "get_error_rate w =
     Inr (if request_window w = [] then 0
          else of_nat (length (filter (\<lambda>req. 500 \<le> status req \<and> status req < 600)
                                 (request_window w)))
               / of_nat (length (request_window w)) * 100)
   \<and> (request_window w = [] \<longrightarrow> get_error_rate w = Inr 0)
   \<and> (request_window w \<noteq> []
        \<and> (\<forall>req\<in>set (request_window w). 500 \<le> status req \<and> status req < 600)
        \<longrightarrow> get_error_rate w = Inr 100)
   \<and> ((\<forall>req\<in>set (request_window w). \<not> (500 \<le> status req \<and> status req < 600))
        \<longrightarrow> get_error_rate w = Inr 0)"
proof -
  have "get_error_rate w = Inr 100"
    if "request_window w \<noteq> []"
       "\<forall>req\<in>set (request_window w). 500 \<le> status req \<and> status req < 600"
    using that filter_all [of "request_window w" "\<lambda>req. 500 \<le> status req \<and> status req < 600"]
    by (simp add: get_error_rate_eq)
  moreover have "get_error_rate w = Inr 0"
    if "\<forall>req\<in>set (request_window w). \<not> (500 \<le> status req \<and> status req < 600)"
    using that filter_none [of "request_window w" "\<lambda>req. 500 \<le> status req \<and> status req < 600"]
    by (simp add: get_error_rate_eq)
  moreover have "request_window w = [] \<longrightarrow> get_error_rate w = Inr 0"
    by (simp add: get_error_rate_eq)
  ultimately show ?thesis using get_error_rate_eq [of w] by blast
qed

lemma all_errors_window:
  "request_window all_errors_world =
     [\<lparr>status = 500, req_pool = ''blue'', timestamp = 1762250000\<rparr>,
      \<lparr>status = 503, req_pool = ''blue'', timestamp = 1762250001\<rparr>,
      \<lparr>status = 599, req_pool = ''green'', timestamp = 1762250002\<rparr>]"
  unfolding all_errors_world_def add_requests_fresh
  by (simp add: tiny_config_def default_config_def steady_clock_def)

lemma no_errors_window:
  "request_window no_errors_world =
     [\<lparr>status = 200, req_pool = ''blue'', timestamp = 1762250000\<rparr>,
      \<lparr>status = 499, req_pool = ''blue'', timestamp = 1762250001\<rparr>,
      \<lparr>status = 600, req_pool = ''green'', timestamp = 1762250002\<rparr>,
      \<lparr>status = 0, req_pool = '''', timestamp = 1762250003\<rparr>]"
  unfolding no_errors_world_def add_requests_fresh
  by (simp add: tiny_config_def default_config_def steady_clock_def)

text \<open>
  A witness for C3: the empty window, a window with statuses 500, 503, 599 and a window with
  statuses 200, 499, 600, 0.
\<close>

theorem get_error_rate_formula_witness:
  "request_window (init_world (steady_clock 0 1)) = []
   \<and> get_error_rate (init_world (steady_clock 0 1)) = Inr 0
   \<and> map status (request_window all_errors_world) = [500, 503, 599]
   \<and> get_error_rate all_errors_world = Inr 100
   \<and> map status (request_window no_errors_world) = [200, 499, 600, 0]
   \<and> get_error_rate no_errors_world = Inr 0"
  using get_error_rate_formula [of "init_world (steady_clock 0 1)"]
        get_error_rate_formula [of all_errors_world]
        get_error_rate_formula [of no_errors_world]
  by (simp add: all_errors_window no_errors_window init_world_def)

subsection \<open>What the gate and the notifier leave alone\<close>

lemma can_send_alert_frame:
  "request_window (snd (can_send_alert cfg a w)) = request_window w"
  "current_pool (snd (can_send_alert cfg a w)) = current_pool w"
  "failover_start_time (snd (can_send_alert cfg a w)) = failover_start_time w"
  "total_requests (snd (can_send_alert cfg a w)) = total_requests w"
  "clock (snd (can_send_alert cfg a w)) = clock w"
  "calls (snd (can_send_alert cfg a w)) = calls w @ [CanSendAlert a (fst (can_send_alert cfg a w))]"
  by (simp_all add: can_send_alert_def record_call_def time_time_def Let_def)

lemma send_slack_alert_frame:
  "request_window (send_slack_alert a d w) = request_window w"
  "current_pool (send_slack_alert a d w) = current_pool w"
  "failover_start_time (send_slack_alert a d w) = failover_start_time w"
  "last_alert_times (send_slack_alert a d w) = last_alert_times w"
  "total_requests (send_slack_alert a d w) = total_requests w"
  "clock (send_slack_alert a d w) = clock w"
  "clock_reads (send_slack_alert a d w) = clock_reads w"
  "calls (send_slack_alert a d w) = calls w @ [SendSlackAlert a d]"
  by (simp_all add: send_slack_alert_def record_call_def)


subsection \<open>The error-rate monitor\<close>






subsection \<open>The failover detector\<close>

lemma blue_prefix: "startswith (py_lower ''blue'') ''blue''"
  by code_simp


lemma attempted_simps:
  "attempted a [] = False"
  "attempted a (CanSendAlert b r # cs) = (b = a \<or> attempted a cs)"
  "attempted a (SendSlackAlert b d # cs) = attempted a cs"
  "attempted a (cs @ ds) = (attempted a cs \<or> attempted a ds)"
  by (auto simp: attempted_def)

lemma new_calls_append: "calls w' = calls w @ cs \<Longrightarrow> new_calls w w' = cs"
  by (simp add: new_calls_def)

lemma failover_alert_denied:
  assumes "\<not> fst (can_send_alert cfg ''failover'' w)"
  shows "failover_alert cfg cur new_pool w = snd (can_send_alert cfg ''failover'' w)"
  using assms by (cases "can_send_alert cfg ''failover'' w") (simp add: failover_alert_def)

lemma failover_alert_frame:
  "current_pool (failover_alert cfg cur new_pool w) = current_pool w"
  "request_window (failover_alert cfg cur new_pool w) = request_window w"
  "total_requests (failover_alert cfg cur new_pool w) = total_requests w"
  "clock (failover_alert cfg cur new_pool w) = clock w"
  "calls (failover_alert cfg cur new_pool w) =
     calls w @ (if fst (can_send_alert cfg ''failover'' w)
                then [CanSendAlert ''failover'' True,
                      SendSlackAlert ''failover'' (FailoverData cur new_pool)]
                else [CanSendAlert ''failover'' False])"
  by (simp_all add: failover_alert_def can_send_alert_def send_slack_alert_def record_call_def
        time_time_def Let_def)

lemma failover_alert_start:
  "failover_start_time (failover_alert cfg cur new_pool w) =
     (if fst (can_send_alert cfg ''failover'' w)
      then Some (clock w (Suc (clock_reads w)))
      else failover_start_time w)"
  by (simp add: failover_alert_def can_send_alert_def send_slack_alert_def record_call_def
        time_time_def Let_def)

lemma recovery_check_skip:
  "\<not> (startswith (py_lower new_pool) ''blue'' \<and> truthy (failover_start_time w)) \<Longrightarrow>
   recovery_check cfg new_pool w = w"
  by (auto simp: recovery_check_def)

lemma recovery_check_enter:
  assumes "startswith (py_lower new_pool) ''blue''" "truthy (failover_start_time w)"
  shows "failover_start_time (recovery_check cfg new_pool w) = None"
    and "current_pool (recovery_check cfg new_pool w) = current_pool w"
    and "\<exists>ok d. calls (recovery_check cfg new_pool w) =
           calls w @ (if ok then [CanSendAlert ''recovery'' True,
                                  SendSlackAlert ''recovery'' (RecoveryData new_pool d)]
                      else [CanSendAlert ''recovery'' False])"
  using assms
  by (auto simp: recovery_check_def truthy_def can_send_alert_def send_slack_alert_def
        record_call_def time_time_def Let_def split: option.splits)

lemma recovery_check_frame:
  "current_pool (recovery_check cfg new_pool w) = current_pool w"
  "request_window (recovery_check cfg new_pool w) = request_window w"
  "total_requests (recovery_check cfg new_pool w) = total_requests w"
  "clock (recovery_check cfg new_pool w) = clock w"
  by (simp_all add: recovery_check_def truthy_def can_send_alert_def send_slack_alert_def
        record_call_def time_time_def Let_def split: option.splits)

lemma detect_failover_change:
  assumes "current_pool w = Some cur" "cur \<noteq> new_pool"
  shows "detect_failover cfg new_pool w =
           (True, recovery_check cfg new_pool
                    ((failover_alert cfg cur new_pool w)\<lparr>current_pool := Some new_pool\<rparr>))"
  using assms by (simp add: detect_failover_def Let_def)

lemma detect_failover_pool:
  "current_pool (snd (detect_failover cfg new_pool w)) = Some new_pool"
  by (cases "current_pool w")
     (auto simp: detect_failover_def Let_def recovery_check_frame)
text \<open>
  C5. Every call of \<open>detect_failover\<close> leaves the observed pool as the active pool, whatever
  the gate answers (maintenance mode and cooldown included). When the pool changed, the new
  pool name begins with blue (case-insensitive) and the failover start is set when the
  recovery check is reached (as Python tests it: a stored reading of 0.0 counts as unset),
  the failover start is cleared, whether or not the recovery alert is granted.
\<close>

theorem state_advances_regardless:
  "current_pool (snd (detect_failover cfg new_pool w)) = Some new_pool
   \<and> (\<forall>cur. current_pool w = Some cur \<and> cur \<noteq> new_pool
          \<and> startswith (py_lower new_pool) ''blue''
          \<and> truthy (failover_start_time (failover_alert cfg cur new_pool w))
        \<longrightarrow> failover_start_time (snd (detect_failover cfg new_pool w)) = None)"
  by (auto simp: detect_failover_pool detect_failover_change recovery_check_enter(1))
lemma flap_facts:
  "current_pool flap2 = Some ''green''"
  "failover_start_time flap2 = Some 1762250050"
  "\<not> fst (can_send_alert default_config ''failover'' flap2)"
  "calls flap2 = [CanSendAlert ''failover'' True,
                  SendSlackAlert ''failover'' (FailoverData ''blue'' ''green'')]"
  "calls flap3 = calls flap2 @ [CanSendAlert ''failover'' False, CanSendAlert ''recovery'' True,
                  SendSlackAlert ''recovery'' (RecoveryData ''blue'' 100)]"
  "current_pool flap3 = Some ''blue''"
  "failover_start_time flap3 = None"
  "current_pool flap4 = Some ''green''"
  "failover_start_time flap4 = None"
  "calls flap4 = calls flap3 @ [CanSendAlert ''failover'' False]"
  "fst (can_send_alert default_config ''failover'' flap4)"
  "calls flap5 = calls flap4 @ [CanSendAlert ''failover'' True,
                  SendSlackAlert ''failover'' (FailoverData ''green'' ''blue''),
                  CanSendAlert ''recovery'' False]"
  by code_simp+

lemma flap_truthy:
  "truthy (failover_start_time (failover_alert default_config ''green'' ''blue'' flap2))"
  "truthy (failover_start_time (failover_alert default_config ''green'' ''blue'' flap4))"
  by code_simp+
text \<open>
  A witness for C5. In the third observation the failover alert is refused by the cooldown
  and the recovery alert is sent; in the fifth the failover alert is sent and the recovery
  alert is refused by the cooldown. Both times the active pool becomes blue and the failover
  start is cleared.
\<close>

theorem state_advances_regardless_witness:
  "current_pool flap2 = Some ''green''
   \<and> new_calls flap2 flap3 =
       [CanSendAlert ''failover'' False, CanSendAlert ''recovery'' True,
        SendSlackAlert ''recovery'' (RecoveryData ''blue'' 100)]
   \<and> current_pool flap3 = Some ''blue''
   \<and> failover_start_time flap3 = None
   \<and> current_pool flap4 = Some ''green''
   \<and> new_calls flap4 flap5 =
       [CanSendAlert ''failover'' True,
        SendSlackAlert ''failover'' (FailoverData ''green'' ''blue''),
        CanSendAlert ''recovery'' False]
   \<and> current_pool flap5 = Some ''blue''
   \<and> failover_start_time flap5 = None"
  using state_advances_regardless [of default_config "''blue''" flap2]
        state_advances_regardless [of default_config "''blue''" flap4]
        flap_truthy blue_prefix
  by (simp add: flap_facts new_calls_def flap3_def [symmetric] flap5_def [symmetric])
lemma denied_step:
  assumes "current_pool w = Some cur" "cur \<noteq> new_pool"
      and "\<not> fst (can_send_alert cfg ''failover'' w)"
      and "\<not> (startswith (py_lower new_pool) ''blue'' \<and> truthy (failover_start_time w))"
  shows "failover_start_time (snd (detect_failover cfg new_pool w)) = failover_start_time w"
    and "calls (snd (detect_failover cfg new_pool w)) = calls w @ [CanSendAlert ''failover'' False]"
    and "current_pool (snd (detect_failover cfg new_pool w)) = Some new_pool"
proof -
  let ?w1 = "(snd (can_send_alert cfg ''failover'' w))\<lparr>current_pool := Some new_pool\<rparr>"
  have skip: "recovery_check cfg new_pool ?w1 = ?w1"
    using assms(4) by (intro recovery_check_skip) (simp add: can_send_alert_frame)
  have "detect_failover cfg new_pool w = (True, ?w1)"
    using assms(1-3) skip by (simp add: detect_failover_change failover_alert_denied)
  then show "failover_start_time (snd (detect_failover cfg new_pool w)) = failover_start_time w"
    and "calls (snd (detect_failover cfg new_pool w)) = calls w @ [CanSendAlert ''failover'' False]"
    and "current_pool (snd (detect_failover cfg new_pool w)) = Some new_pool"
    using assms(3) by (simp_all add: can_send_alert_frame)
qed

lemma denied_step_quiet:
  assumes "current_pool w = Some cur" "cur \<noteq> new_pool"
      and "\<not> fst (can_send_alert cfg ''failover'' w)"
      and "\<not> (startswith (py_lower new_pool) ''blue'' \<and> truthy (failover_start_time w))"
  shows "\<not> attempted ''recovery'' (new_calls w (snd (detect_failover cfg new_pool w)))"
  using denied_step(2) [OF assms]
  by (simp add: new_calls_def attempted_simps)
text \<open>
  C9 (as the code has it). When \<open>detect_failover\<close> sees a pool change and the gate refuses the
  failover alert, the failover-alert step leaves the failover start unchanged. Over the whole
  call it is unchanged, and no recovery alert is attempted, unless the new pool name begins
  with blue and the failover start is set (then the recovery branch clears it). In
  particular an unset failover start stays unset and no recovery alert is attempted; and a
  following transition to any other pool, whose own failover alert is refused as well, makes
  no recovery attempt either and leaves it unset.
\<close>

theorem denied_failover_keeps_start:
  assumes "current_pool w = Some cur" "cur \<noteq> new_pool"
      and "\<not> fst (can_send_alert cfg ''failover'' w)"
  shows "failover_start_time (failover_alert cfg cur new_pool w) = failover_start_time w
       \<and> (\<not> (startswith (py_lower new_pool) ''blue'' \<and> truthy (failover_start_time w)) \<longrightarrow>
             failover_start_time (snd (detect_failover cfg new_pool w)) = failover_start_time w
           \<and> \<not> attempted ''recovery'' (new_calls w (snd (detect_failover cfg new_pool w))))
       \<and> (failover_start_time w = None \<longrightarrow>
             failover_start_time (snd (detect_failover cfg new_pool w)) = None
           \<and> \<not> attempted ''recovery'' (new_calls w (snd (detect_failover cfg new_pool w)))
           \<and> (\<forall>ret. ret \<noteq> new_pool
                  \<and> \<not> fst (can_send_alert cfg ''failover'' (snd (detect_failover cfg new_pool w)))
                \<longrightarrow> \<not> attempted ''recovery''
                        (new_calls (snd (detect_failover cfg new_pool w))
                           (snd (detect_failover cfg ret (snd (detect_failover cfg new_pool w)))))
                  \<and> failover_start_time
                        (snd (detect_failover cfg ret (snd (detect_failover cfg new_pool w))))
                      = None))"
proof -
  have a: "failover_start_time (failover_alert cfg cur new_pool w) = failover_start_time w"
    using assms(3) by (simp add: failover_alert_start)
  have b: "failover_start_time (snd (detect_failover cfg new_pool w)) = failover_start_time w
           \<and> \<not> attempted ''recovery'' (new_calls w (snd (detect_failover cfg new_pool w)))"
    if "\<not> (startswith (py_lower new_pool) ''blue'' \<and> truthy (failover_start_time w))"
    using denied_step(1) [OF assms that] denied_step_quiet [OF assms that] by simp
  have c: "\<not> attempted ''recovery''
              (new_calls (snd (detect_failover cfg new_pool w))
                 (snd (detect_failover cfg ret (snd (detect_failover cfg new_pool w)))))
           \<and> failover_start_time
               (snd (detect_failover cfg ret (snd (detect_failover cfg new_pool w)))) = None"
    if unset: "failover_start_time w = None" and ret: "ret \<noteq> new_pool"
      and denied: "\<not> fst (can_send_alert cfg ''failover'' (snd (detect_failover cfg new_pool w)))"
    for ret
  proof -
    let ?w' = "snd (detect_failover cfg new_pool w)"
    have n: "\<not> (startswith (py_lower new_pool) ''blue'' \<and> truthy (failover_start_time w))"
      using unset by (simp add: truthy_def)
    have pool: "current_pool ?w' = Some new_pool"
      by (rule denied_step(3) [OF assms n])
    have start: "failover_start_time ?w' = None"
      using denied_step(1) [OF assms n] unset by simp
    have n': "\<not> (startswith (py_lower ret) ''blue'' \<and> truthy (failover_start_time ?w'))"
      using start by (simp add: truthy_def)
    have ne: "new_pool \<noteq> ret" using ret by blast
    show ?thesis
      using denied_step(1) [OF pool ne denied n'] denied_step_quiet [OF pool ne denied n'] start
      by simp
  qed
  have d: "\<not> (startswith (py_lower new_pool) ''blue'' \<and> truthy (failover_start_time w))"
    if "failover_start_time w = None"
    using that by (simp add: truthy_def)
  show ?thesis
    using a b c d by metis
qed
lemma calm_facts:
  "current_pool calm3 = Some ''blue''"
  "failover_start_time calm3 = None"
  "\<not> fst (can_send_alert default_config ''failover'' calm3)"
  "\<not> fst (can_send_alert default_config ''failover'' calm4)"
  by code_simp+
text \<open>
  A witness for C9: with 10 seconds between clock readings, the fourth observation (green)
  and the fifth (blue) are both refused a failover alert; the failover start stays unset and
  no recovery alert is attempted.
\<close>

theorem denied_failover_keeps_start_witness:
  "current_pool calm3 = Some ''blue''
   \<and> failover_start_time calm3 = None
   \<and> \<not> fst (can_send_alert default_config ''failover'' calm3)
   \<and> failover_start_time calm4 = None
   \<and> \<not> attempted ''recovery'' (new_calls calm3 calm4)
   \<and> \<not> fst (can_send_alert default_config ''failover'' calm4)
   \<and> startswith (py_lower ''blue'') ''blue''
   \<and> \<not> attempted ''recovery'' (new_calls calm4 calm5)
   \<and> failover_start_time calm5 = None"
  using denied_failover_keeps_start [of calm3 "''blue''" "''green''" default_config]
        calm_facts blue_prefix
  unfolding calm5_def
  by (auto simp: calm4_def [symmetric])
text \<open>
  C9 as stated fails: with 50 seconds between clock readings, the fourth observation (green)
  is a pool change whose failover alert is refused while the failover start is unset, and it
  stays unset; yet the next transition back to blue is granted its failover alert, which
  sets the failover start in the same call, and a recovery alert is attempted.
\<close>

theorem recovery_after_denied_failover:
  "current_pool flap3 = Some ''blue''
   \<and> failover_start_time flap3 = None
   \<and> \<not> fst (can_send_alert default_config ''failover'' flap3)
   \<and> current_pool flap4 = Some ''green''
   \<and> failover_start_time flap4 = None
   \<and> startswith (py_lower ''blue'') ''blue''
   \<and> attempted ''recovery'' (new_calls flap4 flap5)"
  by code_simp


subsection \<open>The line parser\<close>

lemma py_int_cases: "py_int s = Inl ValueError \<or> (\<exists>n. py_int s = Inr n)"
  by (auto simp: py_int_def Let_def split: prod.splits)

lemma py_float_cases: "py_float s = Inl ValueError \<or> (\<exists>v. py_float s = Inr v)"
  by (auto simp: py_float_def Let_def split: prod.splits option.splits)


lemma build_entry_cases:
  assumes "6 \<le> length parts"
  shows "build_entry parts =
     (if py_strip (parts ! 2) \<noteq> [] \<and> py_int (py_strip (parts ! 2)) = Inl ValueError
         \<or> py_strip (parts ! 4) \<noteq> [] \<and> py_float (py_strip (parts ! 4)) = Inl ValueError
         \<or> py_strip (parts ! 5) \<noteq> [] \<and> py_float (py_strip (parts ! 5)) = Inl ValueError
      then Inl ValueError
      else Inr \<lparr>pool = py_strip (parts ! 0), release = py_strip (parts ! 1),
                upstream_status =
                  (if py_strip (parts ! 2) = [] then 0 else projr (py_int (py_strip (parts ! 2)))),
                upstream_addr = py_strip (parts ! 3),
                request_time =
                  (if py_strip (parts ! 4) = [] then Finite 0
                   else projr (py_float (py_strip (parts ! 4)))),
                upstream_response_time =
                  (if py_strip (parts ! 5) = [] then Finite 0
                   else projr (py_float (py_strip (parts ! 5))))\<rparr>)"
  using assms py_int_cases [of "py_strip (parts ! 2)"]
        py_float_cases [of "py_strip (parts ! 4)"] py_float_cases [of "py_strip (parts ! 5)"]
  by (auto simp: build_entry_def bind_exc_def py_index_def)

lemma parse_log_line_cases:
  "parse_log_line line =
     (if length (line_fields line) < 6 then Inr None
      else case build_entry (line_fields line) of
             Inl e \<Rightarrow> Inr None
           | Inr entry \<Rightarrow> Inr (Some entry))"
proof (cases "length (line_fields line) < 6")
  case True
  then show ?thesis by (simp add: parse_log_line_def line_fields_def)
next
  case False
  then have "6 \<le> length (line_fields line)" by simp
  from build_entry_cases [OF this] False show ?thesis
    by (simp add: parse_log_line_def line_fields_def Let_def)
qed




subsection \<open>Blank lines of six fields\<close>

lemma detect_failover_frame:
  "request_window (snd (detect_failover cfg p w)) = request_window w"
  "total_requests (snd (detect_failover cfg p w)) = total_requests w"
  by (cases "current_pool w";
      simp add: detect_failover_def Let_def recovery_check_frame failover_alert_frame)+

lemma check_error_rate_frame:
  "\<exists>w'. check_error_rate cfg w = Inr w'
        \<and> request_window w' = request_window w \<and> total_requests w' = total_requests w"
  by (cases "can_send_alert cfg ''error_rate'' w")
     (use can_send_alert_frame(1,4) [of cfg "''error_rate''" w] in
       \<open>auto simp: check_error_rate_def get_error_rate_eq send_slack_alert_frame\<close>)

lemma main_loop_body_entry:
  assumes "parse_log_line line = Inr (Some entry)"
  shows "\<exists>w'. main_loop_body cfg line w = Inr w'
           \<and> request_window w' =
               deque_append (WINDOW_SIZE cfg) (request_window w)
                 \<lparr>status = upstream_status entry, req_pool = pool entry,
                    timestamp = clock w (clock_reads w)\<rparr>
           \<and> total_requests w' = Suc (total_requests w)"
proof -
  let ?w1 = "add_request cfg (upstream_status entry) (pool entry) w"
  let ?w2 = "snd (detect_failover cfg (pool entry) ?w1)"
  have w2: "request_window ?w2 = request_window ?w1" "total_requests ?w2 = total_requests ?w1"
    by (rule detect_failover_frame)+
  obtain w3 where w3: "(if total_requests ?w2 mod 10 = 0 then check_error_rate cfg ?w2 else Inr ?w2) = Inr w3"
    and f3: "request_window w3 = request_window ?w2" "total_requests w3 = total_requests ?w2"
    using check_error_rate_frame [of cfg ?w2] by (cases "total_requests ?w2 mod 10 = 0") auto
  have "main_loop_body cfg line w =
      (case (if total_requests ?w2 mod 10 = 0 then check_error_rate cfg ?w2 else Inr ?w2) of
         Inl e \<Rightarrow> Inl e
       | Inr w3 \<Rightarrow>
           if total_requests w3 mod 50 = 0 then
             (case get_error_rate w3 of Inl e \<Rightarrow> Inl e | Inr _ \<Rightarrow> Inr w3)
           else Inr w3)"
    by (simp add: main_loop_body_def assms Let_def case_prod_beta)
  also have "\<dots> = Inr w3"
    unfolding w3 by (simp add: get_error_rate_eq)
  finally have "main_loop_body cfg line w = Inr w3" .
  then show ?thesis
    using f3 w2 by (simp add: add_request_fields)
qed

lemma blank_line:
  assumes "length (line_fields line) = 6" "list_all (\<lambda>p. py_strip p = []) (line_fields line)"
  shows "parse_log_line line = Inr (Some blank_entry)"
proof -
  have e: "py_strip (line_fields line ! i) = []" if "i < 6" for i
    using assms that by (simp add: list_all_length)
  have six: "6 \<le> length (line_fields line)" using assms(1) by simp
  show ?thesis
    unfolding parse_log_line_cases build_entry_cases [OF six]
    using assms(1) e [of 0] e [of 1] e [of 2] e [of 3] e [of 4] e [of 5]
    by (simp add: blank_entry_def del: One_nat_def)
qed
text \<open>
  C10. The line of five bars and nothing else splits into six empty fields and is accepted:
  it parses to the entry with empty pool, release and address, status 0 and both times 0.0.
  So does every line that splits into exactly six fields that are all empty after trimming.
  The loop body then always returns, with the observation of status 0 and empty pool name
  (stamped with the clock reading) appended to the window through the bounded deque and the
  request counter increased by one; whenever the capacity is positive that observation is
  the newest element of the window.
\<close>

theorem blank_line_accepted:
  "line_fields ''|||||'' = ['''', '''', '''', '''', '''', '''']
   \<and> parse_log_line ''|||||'' = Inr (Some blank_entry)
   \<and> (length (line_fields line) = 6 \<and> list_all (\<lambda>p. py_strip p = []) (line_fields line)
        \<longrightarrow> parse_log_line line = Inr (Some blank_entry)
          \<and> (\<exists>w'. main_loop_body cfg line w = Inr w'
                \<and> request_window w' =
                    deque_append (WINDOW_SIZE cfg) (request_window w)
                      \<lparr>status = 0, req_pool = '''', timestamp = clock w (clock_reads w)\<rparr>
                \<and> total_requests w' = Suc (total_requests w)
                \<and> (length (request_window w) \<le> WINDOW_SIZE cfg \<and> 0 < WINDOW_SIZE cfg
                     \<longrightarrow> request_window w' \<noteq> []
                       \<and> last (request_window w') =
                           \<lparr>status = 0, req_pool = '''',
                              timestamp = clock w (clock_reads w)\<rparr>)))"
proof -
  have a: "line_fields ''|||||'' = ['''', '''', '''', '''', '''', '''']" by code_simp
  have b: "parse_log_line ''|||||'' = Inr (Some blank_entry)" by code_simp
  have c: "\<exists>w'. main_loop_body cfg line w = Inr w'
                \<and> request_window w' =
                    deque_append (WINDOW_SIZE cfg) (request_window w)
                      \<lparr>status = 0, req_pool = '''', timestamp = clock w (clock_reads w)\<rparr>
                \<and> total_requests w' = Suc (total_requests w)
                \<and> (length (request_window w) \<le> WINDOW_SIZE cfg \<and> 0 < WINDOW_SIZE cfg
                     \<longrightarrow> request_window w' \<noteq> []
                       \<and> last (request_window w') =
                           \<lparr>status = 0, req_pool = '''',
                              timestamp = clock w (clock_reads w)\<rparr>)"
    if p: "parse_log_line line = Inr (Some blank_entry)"
  proof -
    let ?x = "\<lparr>status = 0, req_pool = '''', timestamp = clock w (clock_reads w)\<rparr>"
    have l: "deque_append m d ?x \<noteq> [] \<and> last (deque_append m d ?x) = ?x"
      if "length d \<le> m" "0 < m" for m d
      using that by (simp add: deque_append_drop)
    from main_loop_body_entry [OF p, of cfg w] l [of "request_window w" "WINDOW_SIZE cfg"]
    show ?thesis by (auto simp: blank_entry_def)
  qed
  show ?thesis using a b c blank_line [of line] by blast
qed
lemma padded_blank_facts:
  "length (line_fields ''  |  | | |  |  '') = 6"
  "list_all (\<lambda>p. py_strip p = []) (line_fields ''  |  | | |  |  '')"
  by code_simp+
text \<open>
  A witness for C10: a line of five bars padded with blanks, read in the initial state under
  the default configuration.
\<close>

theorem blank_line_accepted_witness:
  "length (line_fields ''  |  | | |  |  '') = 6
   \<and> list_all (\<lambda>p. py_strip p = []) (line_fields ''  |  | | |  |  '')
   \<and> parse_log_line ''  |  | | |  |  '' = Inr (Some blank_entry)
   \<and> request_window padded_blank_world =
       [\<lparr>status = 0, req_pool = '''', timestamp = 1762250000\<rparr>]
   \<and> total_requests padded_blank_world = 1"
  using blank_line_accepted [of "''  |  | | |  |  ''" default_config "init_world (steady_clock 1762250000 1)"]
        padded_blank_facts
  by (auto simp: padded_blank_world_def init_world_def deque_append_def default_config_def steady_clock_def)

end
